theory Spec2Isabelle
  imports Complex_Main
begin

section \<open>JavaScript values\<close>

text \<open>
  The payload of a socket message is whatever JSON value a client sent: the server stores
  and relays it without looking inside, and the client reads fields off it. Numbers are
  modelled by reals (rounding of doubles is not modelled); \<open>JNaN\<close> is the not-a-number
  value. An object is the list of its fields, with distinct keys.
\<close>

datatype jsval =
    JUndefined
  | JNull
  | JBool bool
  | JNum real
  | JNaN
  | JStr string
  | JObj "(string \<times> jsval) list"

section \<open>The relay server (src/unnamed/part\_000)\<close>

type_synonym session = nat

text \<open>The two messages the server sends, named as their socket.io events.\<close>

datatype message =
    initial_drawing_history "jsval list"
  | drawing_action jsval

text \<open>
  The two ways a handler sends: \<open>socket.emit\<close> and \<open>socket.broadcast.emit\<close>, each with the
  socket it is called on.
\<close>

datatype emission =
    Emit session message
  | BroadcastEmit session message

definition MAX_HISTORY_LENGTH :: nat where
  "MAX_HISTORY_LENGTH = 200"

record server =
  drawingActionsHistory :: "jsval list"
  sockets :: "session list"

text \<open>The server at start-up: line 17, and nobody connected.\<close>

definition server_start :: server where
  "server_start = \<lparr>drawingActionsHistory = [], sockets = []\<rparr>"

text \<open>
  Lines 31 to 34 and 41 to 44: \<open>push\<close>, then one \<open>shift\<close> when the length has passed the
  limit. \<open>shift\<close> removes the first element.
\<close>

definition push_shift :: "jsval list \<Rightarrow> jsval \<Rightarrow> jsval list" where
  "push_shift h d =
     (let h' = h @ [d]
      in if length h' > MAX_HISTORY_LENGTH then tl h' else h')"

text \<open>Lines 21 to 27: the connection handler, for the socket \<open>s\<close>.\<close>

definition on_connection :: "session \<Rightarrow> server \<Rightarrow> server \<times> emission list" where
  "on_connection s st =
     (st\<lparr>sockets := sockets st @ [s]\<rparr>,
      if length (drawingActionsHistory st) > 0
      then [Emit s (initial_drawing_history (drawingActionsHistory st))]
      else [])"

text \<open>Lines 29 to 37.\<close>

definition on_drawing_action :: "session \<Rightarrow> jsval \<Rightarrow> server \<Rightarrow> server \<times> emission list" where
  "on_drawing_action s data st =
     (st\<lparr>drawingActionsHistory := push_shift (drawingActionsHistory st) data\<rparr>,
      [BroadcastEmit s (drawing_action data)])"

text \<open>Lines 39 to 50.\<close>

definition clearAction :: jsval where
  "clearAction = JObj [(''type'', JStr ''clear'')]"

definition on_clear_canvas :: "session \<Rightarrow> server \<Rightarrow> server \<times> emission list" where
  "on_clear_canvas s st =
     (st\<lparr>drawingActionsHistory := push_shift (drawingActionsHistory st) clearAction\<rparr>,
      [BroadcastEmit s (drawing_action clearAction)])"

text \<open>Lines 52 to 54: the handler only logs; socket.io forgets the socket.\<close>

definition on_disconnect :: "session \<Rightarrow> server \<Rightarrow> server \<times> emission list" where
  "on_disconnect s st = (st\<lparr>sockets := removeAll s (sockets st)\<rparr>, [])"

text \<open>
  What socket.io does with an emission, given the sockets connected at that moment:
  \<open>socket.emit\<close> reaches that socket, \<open>socket.broadcast.emit\<close> reaches every connected
  socket except the one it is called on.
\<close>

fun deliver :: "session list \<Rightarrow> emission \<Rightarrow> (session \<times> message) list" where
  "deliver ss (Emit s m) = [(s, m)]"
| "deliver ss (BroadcastEmit s m) = map (\<lambda>t. (t, m)) (filter (\<lambda>t. t \<noteq> s) ss)"

datatype event =
    Connection session
  | DrawingAction session jsval
  | ClearCanvas session
  | Disconnect session

fun handle :: "event \<Rightarrow> server \<Rightarrow> server \<times> emission list" where
  "handle (Connection s) st = on_connection s st"
| "handle (DrawingAction s data) st = on_drawing_action s data st"
| "handle (ClearCanvas s) st = on_clear_canvas s st"
| "handle (Disconnect s) st = on_disconnect s st"

text \<open>
  One event is handled to completion; its emissions are delivered to the sockets
  connected once the handler has run.
\<close>

definition step :: "server \<Rightarrow> event \<Rightarrow> server \<times> (session \<times> message) list" where
  "step st e =
     (let (st', ems) = handle e st
      in (st', concat (map (deliver (sockets st')) ems)))"

fun run :: "server \<Rightarrow> event list \<Rightarrow> server \<times> (session \<times> message) list" where
  "run st [] = (st, [])"
| "run st (e # es) =
     (let (st', out) = step st e;
          (st'', outs) = run st' es
      in (st'', out @ outs))"

text \<open>The actions the server logs for a list of events, in arrival order.\<close>

fun logged :: "event list \<Rightarrow> jsval list" where
  "logged [] = []"
| "logged (DrawingAction s data # es) = data # logged es"
| "logged (ClearCanvas s # es) = clearAction # logged es"
| "logged (e # es) = logged es"

section \<open>The client (src/Canvas.jsx): data\<close>

text \<open>
  JavaScript's truthiness, \<open>a || b\<close>, and reading a field off a value that is neither
  \<open>null\<close> nor \<open>undefined\<close>: a field that is not there reads as \<open>undefined\<close>, and so does any
  of the fields used here on a number, a string or a boolean. Reading a field off \<open>null\<close> or
  \<open>undefined\<close> raises a TypeError; that is a branch of \<open>applyDrawingAction\<close> below.
\<close>

fun truthy :: "jsval \<Rightarrow> bool" where
  "truthy JUndefined = False"
| "truthy JNull = False"
| "truthy (JBool b) = b"
| "truthy (JNum r) = (r \<noteq> 0)"
| "truthy JNaN = False"
| "truthy (JStr s) = (s \<noteq> [])"
| "truthy (JObj kvs) = True"

definition js_or :: "jsval \<Rightarrow> jsval \<Rightarrow> jsval" where
  "js_or a b = (if truthy a then a else b)"

fun get :: "jsval \<Rightarrow> string \<Rightarrow> jsval" where
  "get (JObj kvs) k = (case map_of kvs k of Some v \<Rightarrow> v | None \<Rightarrow> JUndefined)"
| "get v k = JUndefined"

text \<open>
  The surface is the trace of the calls made on the 2d context, each with the
  compositing mode in force when it was made. The radius of an arc is either a value as
  it came, or half of one (line 67); the division is kept symbolic. Both arcs of the
  source are full circles, from 0 to \<open>2 * Math.PI\<close>. A snapshot (\<open>toDataURL\<close>) stands for
  the picture, which the trace so far determines; \<open>DrawImage\<close> carries the snapshot drawn.
\<close>

datatype radius = Val jsval | Half jsval

datatype call =
    BeginPath
  | MoveTo jsval jsval
  | LineTo jsval jsval
  | Stroke
  | ClosePath
  | StrokeRect jsval jsval jsval jsval
  | Arc jsval jsval radius
  | Fill
  | FillText jsval jsval jsval
  | ClearRect real real real real
  | DrawImage "(string \<times> call) list"

type_synonym snapshot = "(string \<times> call) list"

text \<open>
  The canvas element with its 2d context. A style field holds the value last assigned to
  it. \<open>rect_left\<close> and \<open>rect_top\<close> are what \<open>getBoundingClientRect\<close> gives.
\<close>

record canvas2d =
  width :: real
  height :: real
  rect_left :: real
  rect_top :: real
  strokeStyle :: jsval
  fillStyle :: jsval
  ctx_lineWidth :: jsval
  lineCap :: jsval
  font :: jsval
  globalCompositeOperation :: string
  calls :: snapshot

definition issue :: "call \<Rightarrow> canvas2d \<Rightarrow> canvas2d" where
  "issue k cv = cv\<lparr>calls := calls cv @ [(globalCompositeOperation cv, k)]\<rparr>"

definition toDataURL :: "canvas2d \<Rightarrow> snapshot" where
  "toDataURL cv = calls cv"

text \<open>
  The component: the refs and the React state of lines 8 to 20. \<open>canvas\<close> is
  \<open>canvasRef.current\<close> together with its context (\<open>None\<close> when either is missing);
  \<open>socket\<close> is \<open>socketRef.current\<close>, holding what has been emitted on it, event name and
  arguments. A handler reads the state of the render it was made in and the model hands it
  the current state, except for \<open>saveHistory\<close> inside the socket handlers, see below.
\<close>

record client =
  canvas :: "canvas2d option"
  socket :: "(string \<times> jsval list) list option"
  isDrawing :: bool
  tool :: string
  color :: string
  lineWidth :: real
  eraserWidth :: real
  startPos :: "real \<times> real"
  currentPos :: "real \<times> real"
  history :: "snapshot list"
  historyStep :: int
  previewMode :: bool
  isApplyingRemoteAction :: bool

definition emit :: "string \<Rightarrow> jsval list \<Rightarrow> client \<Rightarrow> client" where
  "emit ev args c =
     (case socket c of
        None \<Rightarrow> c
      | Some out \<Rightarrow> c\<lparr>socket := Some (out @ [(ev, args)])\<rparr>)"

text \<open>An exception leaves the state as it was when it was raised.\<close>

datatype error = TypeError | SurfaceError

datatype 'a outcome = Returned 'a | Thrown error 'a

section \<open>The action interpreter\<close>

text \<open>Lines 38 and 76: the test that selects subtractive compositing.\<close>

definition is_eraser :: "jsval \<Rightarrow> bool" where
  "is_eraser data \<longleftrightarrow>
     get data ''tool'' = JStr ''eraser''
     \<or> (get data ''type'' = JStr ''eraser'' \<and> get data ''tool'' \<noteq> JStr ''pen'')"

text \<open>
  Lines 46 to 74: the calls made for an action, by its \<open>type\<close>, with the fields passed as
  they are read. \<open>w\<close> and \<open>h\<close> are the size of the canvas, \<open>ew\<close> the eraser width of the
  component.
\<close>

definition type_calls :: "real \<Rightarrow> real \<Rightarrow> real \<Rightarrow> jsval \<Rightarrow> call list" where
  "type_calls w h ew data =
     (if get data ''type'' = JStr ''start'' then
        [BeginPath, MoveTo (get data ''x'') (get data ''y'')]
      else if get data ''type'' = JStr ''draw'' then
        [LineTo (get data ''x'') (get data ''y''), Stroke]
      else if get data ''type'' = JStr ''stop'' then
        [ClosePath]
      else if get data ''type'' = JStr ''rect'' then
        [StrokeRect (get data ''x'') (get data ''y'')
           (get data ''width'') (get data ''height'')]
      else if get data ''type'' = JStr ''circle'' then
        [BeginPath,
         Arc (get data ''x'') (get data ''y'') (Val (get data ''radius'')),
         Stroke]
      else if get data ''type'' = JStr ''text'' then
        [FillText (get data ''text'') (get data ''x'') (get data ''y'')]
      else if get data ''type'' = JStr ''eraser'' then
        [BeginPath,
         Arc (get data ''x'') (get data ''y'')
           (Half (js_or (get data ''lineWidth'') (JNum ew))),
         Fill]
      else if get data ''type'' = JStr ''clear'' then
        [ClearRect 0 0 w h]
      else [])"

text \<open>
  The calls are made in order. Whether the surface raises on a call is the surface's
  matter and is a parameter, \<open>raises\<close>; a call that raises ends the handler there.
\<close>

fun invoke_all :: "(call \<Rightarrow> bool) \<Rightarrow> call list \<Rightarrow> canvas2d \<Rightarrow> canvas2d outcome" where
  "invoke_all raises [] cv = Returned cv"
| "invoke_all raises (k # ks) cv =
     (if raises k then Thrown SurfaceError cv
      else invoke_all raises ks (issue k cv))"

text \<open>
  What an HTML canvas does with numbers: \<open>arc\<close> raises an IndexSizeError for a negative
  radius when no argument is NaN, and the other calls raise nothing. Arguments that are
  not numbers are converted by the browser first; the conversion is not modelled, and
  the predicate is used on numbers only.
\<close>

fun html_canvas_raises :: "call \<Rightarrow> bool" where
  "html_canvas_raises (Arc (JNum x) (JNum y) (Val (JNum r))) = (r < 0)"
| "html_canvas_raises (Arc (JNum x) (JNum y) (Half (JNum r))) = (r < 0)"
| "html_canvas_raises k = False"

text \<open>
  Lines 26 to 80, \<open>applyDrawingAction\<close>. The context the replay handler passes is the one
  \<open>getCanvasContext\<close> returns, so both forms of call read the canvas of the state;
  \<open>color\<close>, \<open>lineWidth\<close> and \<open>eraserWidth\<close> are the component's.
\<close>

definition applyDrawingAction :: "(call \<Rightarrow> bool) \<Rightarrow> jsval \<Rightarrow> client \<Rightarrow> client outcome" where
  "applyDrawingAction raises data c =
     (case canvas c of
        None \<Rightarrow> Returned c
      | Some cv \<Rightarrow>
          if data = JUndefined \<or> data = JNull then Thrown TypeError c
          else
            let cv1 = cv\<lparr>strokeStyle := js_or (get data ''color'') (JStr (color c)),
                        fillStyle := js_or (get data ''color'') (JStr (color c)),
                        ctx_lineWidth := js_or (get data ''lineWidth'')
                          (JNum (if get data ''tool'' = JStr ''eraser''
                                 then eraserWidth c else lineWidth c)),
                        lineCap := JStr ''round'',
                        font := js_or (get data ''font'') (JStr ''16px Arial'')\<rparr>;
                originalCompositeOperation = globalCompositeOperation cv1;
                cv2 = (if is_eraser data
                       then cv1\<lparr>globalCompositeOperation := ''destination-out'',
                                ctx_lineWidth := js_or (get data ''lineWidth'')
                                  (JNum (eraserWidth c))\<rparr>
                       else cv1)
            in case invoke_all raises
                      (type_calls (width cv2) (height cv2) (eraserWidth c) data) cv2 of
                 Thrown e cv3 \<Rightarrow> Thrown e (c\<lparr>canvas := Some cv3\<rparr>)
               | Returned cv3 \<Rightarrow>
                   Returned (c\<lparr>canvas := Some
                     (if is_eraser data
                      then cv3\<lparr>globalCompositeOperation := originalCompositeOperation\<rparr>
                      else cv3)\<rparr>))"

text \<open>Lines 99 to 101: \<open>actions.forEach\<close>; an exception ends the loop.\<close>

fun forEach_apply :: "(call \<Rightarrow> bool) \<Rightarrow> jsval list \<Rightarrow> client \<Rightarrow> client outcome" where
  "forEach_apply raises [] c = Returned c"
| "forEach_apply raises (a # as) c =
     (case applyDrawingAction raises a c of
        Returned c' \<Rightarrow> forEach_apply raises as c'
      | Thrown e c' \<Rightarrow> Thrown e c')"

section \<open>The local history manager\<close>

text \<open>\<open>xs.slice(0, e)\<close>: a negative end counts from the end of the array.\<close>

definition slice0 :: "'a list \<Rightarrow> int \<Rightarrow> 'a list" where
  "slice0 xs e = (if e < 0 then take (nat (int (length xs) + e)) xs else take (nat e) xs)"

text \<open>
  Lines 149 to 162, \<open>saveHistory\<close>. It is a closure over the \<open>history\<close> and \<open>historyStep\<close>
  of the render that made it: these are \<open>h\<close> and \<open>i\<close>. A gesture handler is made anew at
  each render, so it calls \<open>saveHistory\<close> with the current values (\<open>push\<close>); the socket
  handlers keep the \<open>saveHistory\<close> of the render in which their effect last ran (the
  effect of lines 84 to 119 does not depend on it).
\<close>

definition saveHistory :: "snapshot list \<Rightarrow> int \<Rightarrow> client \<Rightarrow> client" where
  "saveHistory h i c =
     (case canvas c of
        None \<Rightarrow> c
      | Some cv \<Rightarrow>
          let dataURL = toDataURL cv;
              newHistory = slice0 h (i + 1) @ [dataURL]
          in c\<lparr>history := newHistory, historyStep := int (length newHistory) - 1\<rparr>)"

definition push :: "client \<Rightarrow> client" where
  "push c = saveHistory (history c) (historyStep c) c"

text \<open>
  Lines 165 to 176, \<open>restoreHistory\<close>, with the \<open>onload\<close> of the image run at once.
\<close>

definition restoreHistory :: "client \<Rightarrow> client" where
  "restoreHistory c =
     (if historyStep c < 0 \<or> historyStep c \<ge> int (length (history c)) then c
      else case canvas c of
        None \<Rightarrow> c
      | Some cv \<Rightarrow>
          c\<lparr>canvas := Some
            (issue (DrawImage (history c ! nat (historyStep c)))
              (issue (ClearRect 0 0 (width cv) (height cv)) cv))\<rparr>)"

text \<open>Lines 178 to 188.\<close>

definition handleUndo :: "client \<Rightarrow> client" where
  "handleUndo c = (if historyStep c > 0 then c\<lparr>historyStep := historyStep c - 1\<rparr> else c)"

definition handleRedo :: "client \<Rightarrow> client" where
  "handleRedo c =
     (if historyStep c < int (length (history c)) - 1
      then c\<lparr>historyStep := historyStep c + 1\<rparr> else c)"

text \<open>
  Lines 190 to 195: the effect that runs after a render in which \<open>historyStep\<close> or
  \<open>history\<close> changed.
\<close>

definition restore_effect :: "client \<Rightarrow> client" where
  "restore_effect c =
     (if length (history c) > 0 \<and> historyStep c \<ge> 0
         \<and> historyStep c < int (length (history c))
      then restoreHistory c else c)"

text \<open>
  A click on Undo or Redo: the handler, then the render. The handler leaves the \<open>history\<close>
  array as it is, so the effect runs exactly when \<open>historyStep\<close> has changed.
\<close>

definition undo :: "client \<Rightarrow> client" where
  "undo c =
     (let c' = handleUndo c
      in if historyStep c' = historyStep c then c' else restore_effect c')"

definition redo :: "client \<Rightarrow> client" where
  "redo c =
     (let c' = handleRedo c
      in if historyStep c' = historyStep c then c' else restore_effect c')"

section \<open>The reconciler: socket and gesture handlers\<close>

text \<open>
  Lines 91 to 104, the \<open>initial-drawing-history\<close> handler. \<open>h\<close> and \<open>i\<close> are the \<open>history\<close>
  and \<open>historyStep\<close> its \<open>saveHistory\<close> closes over. An exception leaves the handler
  before the flag is reset and before \<open>saveHistory\<close>.
\<close>

definition on_initial_drawing_history ::
  "(call \<Rightarrow> bool) \<Rightarrow> snapshot list \<Rightarrow> int \<Rightarrow> jsval list \<Rightarrow> client \<Rightarrow> client outcome" where
  "on_initial_drawing_history raises h i actions c =
     (case canvas c of
        None \<Rightarrow> Returned c
      | Some cv \<Rightarrow>
          let c1 = c\<lparr>isApplyingRemoteAction := True,
                     canvas := Some (issue (ClearRect 0 0 (width cv) (height cv)) cv)\<rparr>
          in case forEach_apply raises actions c1 of
               Thrown e c2 \<Rightarrow> Thrown e c2
             | Returned c2 \<Rightarrow>
                 Returned (saveHistory h i (c2\<lparr>isApplyingRemoteAction := False\<rparr>)))"

record mouse =
  clientX :: real
  clientY :: real

text \<open>Lines 210 to 217.\<close>

definition getMousePos :: "mouse \<Rightarrow> client \<Rightarrow> real \<times> real" where
  "getMousePos nativeEvent c =
     (case canvas c of
        None \<Rightarrow> (0, 0)
      | Some cv \<Rightarrow> (clientX nativeEvent - rect_left cv, clientY nativeEvent - rect_top cv))"

text \<open>
  Lines 253 to 308, \<open>startDrawing\<close>. \<open>answer\<close> is what \<open>prompt\<close> returns when it is asked:
  \<open>None\<close> for a cancelled prompt (\<open>null\<close>), the text otherwise. The calls a gesture handler
  makes carry mouse coordinates, on which the canvas raises nothing. The preview effect
  of lines 219 to 251, which returns at once unless the tool is the rectangle or the
  circle, is not part of the model.
\<close>

definition startDrawing :: "string option \<Rightarrow> mouse \<Rightarrow> client \<Rightarrow> client" where
  "startDrawing answer nativeEvent c =
     (if isApplyingRemoteAction c then c
      else
        let (x, y) = getMousePos nativeEvent c;
            c1 = c\<lparr>startPos := (x, y), currentPos := (x, y)\<rparr>
        in case canvas c1 of
             None \<Rightarrow> c1
           | Some cv \<Rightarrow>
               let currentTool = tool c;
                   currentLineWidth =
                     (if currentTool = ''eraser'' then eraserWidth c else lineWidth c);
                   currentColor = color c;
                   cv1 = cv\<lparr>strokeStyle := JStr currentColor,
                               fillStyle := JStr currentColor,
                               ctx_lineWidth := JNum currentLineWidth\<rparr>
               in if currentTool = ''text'' then
                    (case answer of
                       None \<Rightarrow> c1\<lparr>canvas := Some cv1\<rparr>
                     | Some text \<Rightarrow>
                         if text = [] then c1\<lparr>canvas := Some cv1\<rparr>
                         else
                           let cv2 = issue (FillText (JStr text) (JNum x) (JNum y))
                                       (cv1\<lparr>font := JStr ''16px Arial''\<rparr>);
                               c2 = saveHistory (history c) (historyStep c)
                                      (c1\<lparr>canvas := Some cv2\<rparr>)
                           in emit ''drawing-action''
                                [JObj [(''type'', JStr ''text''), (''text'', JStr text),
                                       (''x'', JNum x), (''y'', JNum y),
                                       (''color'', JStr currentColor),
                                       (''lineWidth'', JNum currentLineWidth),
                                       (''font'', font cv2),
                                       (''tool'', JStr currentTool)]] c2)
                  else
                    let c2 = c1\<lparr>isDrawing := True\<rparr>
                    in if currentTool = ''pen'' \<or> currentTool = ''eraser'' then
                         let cv2 = issue (MoveTo (JNum x) (JNum y)) (issue BeginPath cv1);
                             cv3 = (if currentTool = ''eraser''
                                    then cv2\<lparr>globalCompositeOperation := ''destination-out''\<rparr>
                                    else cv2)
                         in emit ''drawing-action''
                              [JObj [(''type'', JStr ''start''),
                                     (''x'', JNum x), (''y'', JNum y),
                                     (''color'', JStr currentColor),
                                     (''lineWidth'', JNum currentLineWidth),
                                     (''tool'', JStr currentTool)]]
                              (c2\<lparr>canvas := Some cv3\<rparr>)
                       else if currentTool = ''rectangle'' \<or> currentTool = ''circle'' then
                         c2\<lparr>canvas := Some cv1, previewMode := True\<rparr>
                       else c2\<lparr>canvas := Some cv1\<rparr>)"

text \<open>Lines 310 to 360, \<open>draw\<close>.\<close>

definition draw :: "mouse \<Rightarrow> client \<Rightarrow> client" where
  "draw nativeEvent c =
     (if \<not> isDrawing c \<or> isApplyingRemoteAction c then c
      else
        let (x, y) = getMousePos nativeEvent c;
            c1 = c\<lparr>currentPos := (x, y)\<rparr>
        in case canvas c1 of
             None \<Rightarrow> c1
           | Some cv \<Rightarrow>
               let currentTool = tool c;
                   currentLineWidth =
                     (if currentTool = ''eraser'' then eraserWidth c else lineWidth c);
                   currentColor = color c;
                   cv1 = cv\<lparr>strokeStyle := JStr currentColor,
                               ctx_lineWidth := JNum currentLineWidth,
                               globalCompositeOperation :=
                                 (if currentTool = ''eraser'' then ''destination-out''
                                  else ''source-over'')\<rparr>
               in if currentTool = ''pen'' then
                    emit ''drawing-action''
                      [JObj [(''type'', JStr ''draw''),
                             (''x'', JNum x), (''y'', JNum y),
                             (''color'', JStr currentColor),
                             (''lineWidth'', JNum currentLineWidth),
                             (''tool'', JStr currentTool)]]
                      (c1\<lparr>canvas := Some (issue Stroke (issue (LineTo (JNum x) (JNum y)) cv1))\<rparr>)
                  else if currentTool = ''eraser'' then
                    emit ''drawing-action''
                      [JObj [(''type'', JStr ''draw''),
                             (''x'', JNum x), (''y'', JNum y),
                             (''lineWidth'', JNum currentLineWidth),
                             (''tool'', JStr currentTool)]]
                      (c1\<lparr>canvas := Some (issue Stroke (issue (LineTo (JNum x) (JNum y)) cv1))\<rparr>)
                  else c1\<lparr>canvas := Some cv1\<rparr>)"

text \<open>Lines 362 to 432, \<open>stopDrawing\<close>.\<close>

definition stopDrawing :: "mouse \<Rightarrow> client \<Rightarrow> client" where
  "stopDrawing nativeEvent c =
     (if isApplyingRemoteAction c then c
      else if \<not> isDrawing c \<and> tool c \<noteq> ''rectangle'' \<and> tool c \<noteq> ''circle'' then c
      else
        let (x, y) = getMousePos nativeEvent c
        in case canvas c of
             None \<Rightarrow> c
           | Some cv \<Rightarrow>
               let currentTool = tool c;
                   currentLineWidth =
                     (if currentTool = ''eraser'' then eraserWidth c else lineWidth c);
                   currentColor = color c;
                   c1 =
                     (if currentTool = ''pen'' \<or> currentTool = ''eraser'' then
                        let cv1 = issue ClosePath cv;
                            cv2 = (if currentTool = ''eraser''
                                   then cv1\<lparr>globalCompositeOperation := ''source-over''\<rparr>
                                   else cv1)
                        in emit ''drawing-action''
                             [JObj [(''type'', JStr ''stop''), (''tool'', JStr currentTool)]]
                             (c\<lparr>canvas := Some cv2\<rparr>)
                      else if currentTool = ''rectangle'' then
                        let rectWidth = x - fst (startPos c);
                            rectHeight = y - snd (startPos c);
                            cv1 = issue (StrokeRect (JNum (fst (startPos c)))
                                           (JNum (snd (startPos c)))
                                           (JNum rectWidth) (JNum rectHeight))
                                    (cv\<lparr>strokeStyle := JStr currentColor,
                                        ctx_lineWidth := JNum currentLineWidth\<rparr>)
                        in emit ''drawing-action''
                             [JObj [(''type'', JStr ''rect''),
                                    (''x'', JNum (fst (startPos c))),
                                    (''y'', JNum (snd (startPos c))),
                                    (''width'', JNum rectWidth),
                                    (''height'', JNum rectHeight),
                                    (''color'', JStr currentColor),
                                    (''lineWidth'', JNum currentLineWidth),
                                    (''tool'', JStr currentTool)]]
                             (c\<lparr>canvas := Some cv1\<rparr>)
                      else if currentTool = ''circle'' then
                        let radius = sqrt ((x - fst (startPos c))\<^sup>2 + (y - snd (startPos c))\<^sup>2);
                            cv1 = issue Stroke
                                    (issue (Arc (JNum (fst (startPos c)))
                                              (JNum (snd (startPos c))) (Val (JNum radius)))
                                      (issue BeginPath
                                        (cv\<lparr>strokeStyle := JStr currentColor,
                                            ctx_lineWidth := JNum currentLineWidth\<rparr>)))
                        in emit ''drawing-action''
                             [JObj [(''type'', JStr ''circle''),
                                    (''x'', JNum (fst (startPos c))),
                                    (''y'', JNum (snd (startPos c))),
                                    (''radius'', JNum radius),
                                    (''color'', JStr currentColor),
                                    (''lineWidth'', JNum currentLineWidth),
                                    (''tool'', JStr currentTool)]]
                             (c\<lparr>canvas := Some cv1\<rparr>)
                      else c)
               in (saveHistory (history c) (historyStep c) (c1\<lparr>previewMode := False\<rparr>))
                    \<lparr>isDrawing := False\<rparr>)"

text \<open>
  Lines 106 to 114, the \<open>drawing-action\<close> handler of the client. \<open>sid\<close> is the id of the
  socket; \<open>h\<close> and \<open>i\<close> are as above.
\<close>

definition on_drawing_action_msg ::
  "(call \<Rightarrow> bool) \<Rightarrow> string \<Rightarrow> snapshot list \<Rightarrow> int \<Rightarrow> jsval \<Rightarrow> client \<Rightarrow> client outcome" where
  "on_drawing_action_msg raises sid h i data c =
     (if socket c = None \<or> data = JUndefined \<or> data = JNull then Thrown TypeError c
      else if JStr sid = get data ''emitterSocketId'' then Returned c
      else
        case applyDrawingAction raises data (c\<lparr>isApplyingRemoteAction := True\<rparr>) of
          Thrown e c1 \<Rightarrow> Thrown e c1
        | Returned c1 \<Rightarrow> Returned ((saveHistory h i c1)\<lparr>isApplyingRemoteAction := False\<rparr>))"

text \<open>
  The component once mounted: the initial state of lines 10 to 20, the canvas of lines
  485 and 486 with the settings of the effect of lines 122 to 130 and the default
  compositing mode, and a socket on which nothing has been emitted.
\<close>

definition canvas_mounted :: canvas2d where
  "canvas_mounted =
     \<lparr>width = 800, height = 600, rect_left = 0, rect_top = 0,
      strokeStyle = JStr ''#000000'', fillStyle = JStr ''#000000'',
      ctx_lineWidth = JNum 5, lineCap = JStr ''round'', font = JStr ''16px Arial'',
      globalCompositeOperation = ''source-over'', calls = []\<rparr>"

definition client_mounted :: client where
  "client_mounted =
     \<lparr>canvas = Some canvas_mounted, socket = Some [], isDrawing = False,
      tool = ''pen'', color = ''#000000'', lineWidth = 5, eraserWidth = 10,
      startPos = (0, 0), currentPos = (0, 0), history = [], historyStep = - 1,
      previewMode = False, isApplyingRemoteAction = False\<rparr>"

text \<open>
  The invariant of the snapshot history: the cursor is \<open>-1\<close> on the empty sequence and an
  index of the sequence otherwise.
\<close>

definition history_inv :: "client \<Rightarrow> bool" where
  "history_inv c \<longleftrightarrow>
     (if history c = [] then historyStep c = - 1
      else 0 \<le> historyStep c \<and> historyStep c < int (length (history c)))"

text \<open>
  The canvas after an action that was applied without an exception, in closed form.
\<close>

definition applied :: "jsval \<Rightarrow> client \<Rightarrow> canvas2d \<Rightarrow> canvas2d" where
  "applied data c cv =
     cv\<lparr>strokeStyle := js_or (get data ''color'') (JStr (color c)),
        fillStyle := js_or (get data ''color'') (JStr (color c)),
        ctx_lineWidth := js_or (get data ''lineWidth'')
          (JNum (if is_eraser data then eraserWidth c else lineWidth c)),
        lineCap := JStr ''round'',
        font := js_or (get data ''font'') (JStr ''16px Arial''),
        calls := calls cv @
          map (Pair (if is_eraser data then ''destination-out''
                     else globalCompositeOperation cv))
            (type_calls (width cv) (height cv) (eraserWidth c) data)\<rparr>"

section \<open>Inputs used in examples\<close>

text \<open>
  The outcome's state, whether the handler returned or threw.
\<close>

definition state_of :: "'a outcome \<Rightarrow> 'a" where
  "state_of r = (case r of Returned s \<Rightarrow> s | Thrown e s \<Rightarrow> s)"

text \<open>A circle action with no \<open>x\<close>, no colour, no line width and no font.\<close>

definition circle_without_x :: jsval where
  "circle_without_x = JObj [(''type'', JStr ''circle''), (''y'', JNum 10), (''radius'', JNum 5)]"

text \<open>
  The reading of the specification for a numeric field: a missing one counts as 0.
\<close>

definition spec_numeric :: "jsval \<Rightarrow> jsval" where
  "spec_numeric v = (if v = JUndefined then JNum 0 else v)"

text \<open>
  A pen stroke segment as a peer sends it, and the component just after the mouse went
  down at (10, 10) with the eraser tool selected.
\<close>

definition pen_draw :: jsval where
  "pen_draw = JObj [(''type'', JStr ''draw''), (''x'', JNum 50), (''y'', JNum 50),
     (''color'', JStr ''#ff0000''), (''lineWidth'', JNum 5), (''tool'', JStr ''pen'')]"

definition erasing :: client where
  "erasing = startDrawing None \<lparr>clientX = 10, clientY = 10\<rparr> (client_mounted\<lparr>tool := ''eraser''\<rparr>)"

text \<open>A circle action with a negative radius.\<close>

definition bad_circle :: jsval where
  "bad_circle = JObj [(''type'', JStr ''circle''), (''x'', JNum 0), (''y'', JNum 0),
     (''radius'', JNum (- 1))]"

text \<open>
  The component after the first snapshot (the \<open>saveHistory\<close> of lines 133 to 146, made
  right after mounting) and two pen strokes, each a mouse-down and a mouse-up. The colour
  and the widths have not changed since mounting, so the effect of lines 84 to 119 has
  run once, at mounting, and the \<open>saveHistory\<close> of the socket handlers still closes over
  the empty history and the cursor \<open>-1\<close> of that render.
\<close>

definition after_two_strokes :: client where
  "after_two_strokes =
     stopDrawing \<lparr>clientX = 40, clientY = 40\<rparr>
       (startDrawing None \<lparr>clientX = 30, clientY = 30\<rparr>
         (stopDrawing \<lparr>clientX = 20, clientY = 20\<rparr>
           (startDrawing None \<lparr>clientX = 10, clientY = 10\<rparr>
             (push client_mounted))))"

section \<open>History log: lemmas\<close>

lemma drop_append_short: "k \<le> length ys \<Longrightarrow> drop k ys @ zs = drop k (ys @ zs)"
  by simp

lemma push_shift_drop:
  assumes "length h \<le> MAX_HISTORY_LENGTH"
  shows "push_shift h d = drop (length (h @ [d]) - MAX_HISTORY_LENGTH) (h @ [d])"
proof (cases "length h < MAX_HISTORY_LENGTH")
  case True
  then show ?thesis by (simp add: push_shift_def Let_def)
next
  case False
  with assms have "length h = MAX_HISTORY_LENGTH" by simp
  then have "length (h @ [d]) - MAX_HISTORY_LENGTH = Suc 0" by simp
  moreover have "push_shift h d = tl (h @ [d])"
    using \<open>length h = MAX_HISTORY_LENGTH\<close> by (simp add: push_shift_def Let_def)
  ultimately show ?thesis by (simp only: drop_Suc drop_0)
qed

lemma push_shift_length:
  "length h \<le> MAX_HISTORY_LENGTH \<Longrightarrow> length (push_shift h d) \<le> MAX_HISTORY_LENGTH"
  by (auto simp: push_shift_def Let_def)

lemma foldl_push_shift_length:
  "length h \<le> MAX_HISTORY_LENGTH \<Longrightarrow> length (foldl push_shift h xs) \<le> MAX_HISTORY_LENGTH"
  by (induction xs arbitrary: h) (simp_all add: push_shift_length)

lemma foldl_push_shift_drop:
  "length h \<le> MAX_HISTORY_LENGTH \<Longrightarrow>
   foldl push_shift h xs = drop (length (h @ xs) - MAX_HISTORY_LENGTH) (h @ xs)"
proof (induction xs arbitrary: h)
  case Nil
  then show ?case by simp
next
  case (Cons x xs)
  let ?k = "length (h @ [x]) - MAX_HISTORY_LENGTH"
  let ?h = "push_shift h x"
  have hk: "?h = drop ?k (h @ [x])"
    using Cons.prems by (rule push_shift_drop)
  have len: "length ?h \<le> MAX_HISTORY_LENGTH"
    using Cons.prems by (rule push_shift_length)
  have kle: "?k \<le> length (h @ [x])" by simp
  have "foldl push_shift h (x # xs) = foldl push_shift ?h xs" by simp
  also have "\<dots> = drop (length (?h @ xs) - MAX_HISTORY_LENGTH) (?h @ xs)"
    using len by (rule Cons.IH)
  also have "?h @ xs = drop ?k (h @ x # xs)"
  proof -
    have "drop ?k (h @ [x]) @ xs = drop ?k ((h @ [x]) @ xs)"
      using kle by (rule drop_append_short)
    then show ?thesis by (simp only: hk append_assoc append_Cons append_Nil)
  qed
  also have "drop (length (drop ?k (h @ x # xs)) - MAX_HISTORY_LENGTH) (drop ?k (h @ x # xs))
      = drop (length (h @ x # xs) - MAX_HISTORY_LENGTH) (h @ x # xs)"
  proof -
    have "length (drop ?k (h @ x # xs)) - MAX_HISTORY_LENGTH + ?k
        = length (h @ x # xs) - MAX_HISTORY_LENGTH"
      using Cons.prems by (simp add: MAX_HISTORY_LENGTH_def)
    then show ?thesis by (simp only: drop_drop)
  qed
  finally show ?case .
qed

lemma run_history:
  "drawingActionsHistory (fst (run st es)) = foldl push_shift (drawingActionsHistory st) (logged es)"
proof (induction es arbitrary: st)
  case Nil
  then show ?case by simp
next
  case (Cons e es)
  show ?case
    by (cases e)
      (simp_all add: Cons.IH step_def on_connection_def on_drawing_action_def
        on_clear_canvas_def on_disconnect_def case_prod_beta)
qed

lemma logged_submissions: "logged (map (DrawingAction s) xs) = xs"
  by (induction xs) simp_all

lemma run_append:
  "run st (es @ fs) =
     (let (st', out) = run st es;
          (st'', outs) = run st' fs
      in (st'', out @ outs))"
  by (induction es arbitrary: st) (simp_all add: case_prod_beta)

lemma step_drawing_action:
  "step st (DrawingAction s d) =
     (st\<lparr>drawingActionsHistory := push_shift (drawingActionsHistory st) d\<rparr>,
      map (\<lambda>t. (t, drawing_action d)) (filter (\<lambda>t. t \<noteq> s) (sockets st)))"
  by (simp add: step_def on_drawing_action_def)

lemma step_clear_canvas:
  "step st (ClearCanvas s) =
     (st\<lparr>drawingActionsHistory := push_shift (drawingActionsHistory st) clearAction\<rparr>,
      map (\<lambda>t. (t, drawing_action clearAction)) (filter (\<lambda>t. t \<noteq> s) (sockets st)))"
  by (simp add: step_def on_clear_canvas_def)

lemma step_connection:
  "step st (Connection c) =
     (st\<lparr>sockets := sockets st @ [c]\<rparr>,
      if drawingActionsHistory st = [] then []
      else [(c, initial_drawing_history (drawingActionsHistory st))])"
  by (simp add: step_def on_connection_def)

lemma run_alone:
  "sockets st = [s] \<Longrightarrow>
   run st (map (DrawingAction s) xs) =
     (st\<lparr>drawingActionsHistory := foldl push_shift (drawingActionsHistory st) xs\<rparr>, [])"
  by (induction xs arbitrary: st) (simp_all add: step_drawing_action)

lemma last_min: "drop (length xs - min (length xs) n) xs = drop (length xs - n) xs"
  by (simp add: min_def)

section \<open>The action interpreter: lemmas\<close>

lemma issue_simps:
  "globalCompositeOperation (issue k cv) = globalCompositeOperation cv"
  "calls (issue k cv) = calls cv @ [(globalCompositeOperation cv, k)]"
  "width (issue k cv) = width cv"
  "height (issue k cv) = height cv"
  by (simp_all add: issue_def)

lemma invoke_all_Returned:
  "invoke_all raises ks cv = Returned cv' \<longleftrightarrow>
     (\<forall>k\<in>set ks. \<not> raises k)
     \<and> cv' = cv\<lparr>calls := calls cv @ map (Pair (globalCompositeOperation cv)) ks\<rparr>"
proof (induction ks arbitrary: cv)
  case Nil
  show ?case by auto
next
  case (Cons k ks)
  show ?case
    by (cases "raises k") (auto simp: Cons.IH issue_def)
qed

lemma invoke_all_ok:
  "(\<forall>k\<in>set ks. \<not> raises k) \<Longrightarrow>
   invoke_all raises ks cv =
     Returned (cv\<lparr>calls := calls cv @ map (Pair (globalCompositeOperation cv)) ks\<rparr>)"
  by (simp add: invoke_all_Returned)

lemma invoke_all_bad:
  "\<not> (\<forall>k\<in>set ks. \<not> raises k) \<Longrightarrow> \<exists>cv'. invoke_all raises ks cv = Thrown SurfaceError cv'"
  by (induction ks arbitrary: cv) auto

lemma applyDrawingAction_ok:
  assumes "canvas c = Some cv" and "data \<noteq> JUndefined" and "data \<noteq> JNull"
    and "\<forall>k\<in>set (type_calls (width cv) (height cv) (eraserWidth c) data). \<not> raises k"
  shows "applyDrawingAction raises data c = Returned (c\<lparr>canvas := Some (applied data c cv)\<rparr>)"
proof (cases "is_eraser data")
  case True
  then show ?thesis
    using assms by (simp add: applyDrawingAction_def Let_def invoke_all_ok applied_def)
next
  case False
  then have "get data ''tool'' \<noteq> JStr ''eraser''" by (simp add: is_eraser_def)
  with False show ?thesis
    using assms by (simp add: applyDrawingAction_def Let_def invoke_all_ok applied_def)
qed

lemma invoke_all_Thrown: "invoke_all raises ks cv = Thrown e cv' \<Longrightarrow> e = SurfaceError"
  by (induction ks arbitrary: cv) (auto split: if_splits)

lemma applyDrawingAction_bad:
  assumes "canvas c = Some cv" and "data \<noteq> JUndefined" and "data \<noteq> JNull"
    and "\<not> (\<forall>k\<in>set (type_calls (width cv) (height cv) (eraserWidth c) data). \<not> raises k)"
  shows "\<exists>c'. applyDrawingAction raises data c = Thrown SurfaceError c'"
  using assms
  by (auto simp: applyDrawingAction_def Let_def invoke_all_Returned
      split: outcome.splits dest: invoke_all_Thrown)

lemma applyDrawingAction_Returned:
  assumes "canvas c = Some cv" and "data \<noteq> JUndefined" and "data \<noteq> JNull"
  shows "applyDrawingAction raises data c = Returned c' \<longleftrightarrow>
     (\<forall>k\<in>set (type_calls (width cv) (height cv) (eraserWidth c) data). \<not> raises k)
     \<and> c' = c\<lparr>canvas := Some (applied data c cv)\<rparr>"
proof (cases "\<forall>k\<in>set (type_calls (width cv) (height cv) (eraserWidth c) data). \<not> raises k")
  case True
  then show ?thesis
    using applyDrawingAction_ok [OF assms True] by auto
next
  case False
  then show ?thesis
    using applyDrawingAction_bad [OF assms False] by auto
qed

lemma applied_simps:
  "globalCompositeOperation (applied data c cv) = globalCompositeOperation cv"
  "width (applied data c cv) = width cv"
  "height (applied data c cv) = height cv"
  by (simp_all add: applied_def)

lemma forEach_apply_ok:
  assumes "canvas c = Some cv"
    and "\<forall>a\<in>set as. a \<noteq> JUndefined \<and> a \<noteq> JNull
           \<and> (\<forall>k\<in>set (type_calls (width cv) (height cv) (eraserWidth c) a). \<not> raises k)"
  shows "\<exists>cv'. forEach_apply raises as c = Returned (c\<lparr>canvas := Some cv'\<rparr>)
      \<and> globalCompositeOperation cv' = globalCompositeOperation cv
      \<and> width cv' = width cv \<and> height cv' = height cv
      \<and> calls cv' = calls cv @ concat (map (\<lambda>a.
            map (Pair (if is_eraser a then ''destination-out'' else globalCompositeOperation cv))
              (type_calls (width cv) (height cv) (eraserWidth c) a)) as)"
  using assms
proof (induction as arbitrary: c cv)
  case Nil
  then show ?case by (intro exI [of _ cv]) simp
next
  case (Cons a as)
  let ?c1 = "c\<lparr>canvas := Some (applied a c cv)\<rparr>"
  have ok: "applyDrawingAction raises a c = Returned ?c1"
    using Cons.prems by (intro applyDrawingAction_ok) simp_all
  have c1: "canvas ?c1 = Some (applied a c cv)" by simp
  have rest: "\<forall>b\<in>set as. b \<noteq> JUndefined \<and> b \<noteq> JNull
      \<and> (\<forall>k\<in>set (type_calls (width (applied a c cv)) (height (applied a c cv))
              (eraserWidth ?c1) b). \<not> raises k)"
    using Cons.prems(2) by (simp add: applied_simps)
  obtain cv' where run: "forEach_apply raises as ?c1 = Returned (?c1\<lparr>canvas := Some cv'\<rparr>)"
    and mode: "globalCompositeOperation cv' = globalCompositeOperation (applied a c cv)"
    and size: "width cv' = width (applied a c cv)" "height cv' = height (applied a c cv)"
    and trace: "calls cv' = calls (applied a c cv) @ concat (map (\<lambda>b.
            map (Pair (if is_eraser b then ''destination-out''
                       else globalCompositeOperation (applied a c cv)))
              (type_calls (width (applied a c cv)) (height (applied a c cv))
                 (eraserWidth ?c1) b)) as)"
    using Cons.IH [OF c1 rest] by blast
  have "forEach_apply raises (a # as) c = Returned (c\<lparr>canvas := Some cv'\<rparr>)"
    using ok run by simp
  moreover have "calls cv' = calls cv @ concat (map (\<lambda>b.
            map (Pair (if is_eraser b then ''destination-out'' else globalCompositeOperation cv))
              (type_calls (width cv) (height cv) (eraserWidth c) b)) (a # as))"
  proof -
    have "calls (applied a c cv) = calls cv @
        map (Pair (if is_eraser a then ''destination-out'' else globalCompositeOperation cv))
          (type_calls (width cv) (height cv) (eraserWidth c) a)"
      by (simp add: applied_def)
    then show ?thesis
      using trace unfolding applied_simps by simp
  qed
  ultimately show ?case
    using mode size by (auto simp: applied_simps)
qed

lemma applyDrawingAction_null_throws:
  "canvas c = Some cv \<Longrightarrow> applyDrawingAction raises JNull c = Thrown TypeError c"
  by (simp add: applyDrawingAction_def)

lemma applyDrawingAction_negative_radius_throws:
  "\<exists>c'. applyDrawingAction html_canvas_raises
     (JObj [(''type'', JStr ''circle''), (''x'', JNum 0), (''y'', JNum 0), (''radius'', JNum (- 1))])
     client_mounted = Thrown SurfaceError c'"
  by (simp add: applyDrawingAction_def client_mounted_def canvas_mounted_def
      is_eraser_def type_calls_def js_or_def issue_def Let_def)

lemma applyDrawingAction_keeps_compositing:
  assumes "canvas c = Some cv" and "applyDrawingAction raises data c = Returned c'"
  shows "\<exists>cv'. canvas c' = Some cv'
    \<and> globalCompositeOperation cv' = globalCompositeOperation cv
    \<and> calls cv' = calls cv @
         map (Pair (if is_eraser data then ''destination-out'' else globalCompositeOperation cv))
           (type_calls (width cv) (height cv) (eraserWidth c) data)"
proof -
  have "data \<noteq> JUndefined" "data \<noteq> JNull"
    using assms by (auto simp: applyDrawingAction_def)
  then have "c' = c\<lparr>canvas := Some (applied data c cv)\<rparr>"
    using assms applyDrawingAction_Returned [of c cv data raises c'] by simp
  then show ?thesis by (simp add: applied_def)
qed

lemma stopDrawing_eraser_resets:
  assumes "canvas c = Some cv" and "tool c = ''eraser''" and "isDrawing c"
    and "\<not> isApplyingRemoteAction c"
  shows "\<exists>cv'. canvas (stopDrawing ev c) = Some cv'
    \<and> globalCompositeOperation cv' = ''source-over''
    \<and> calls cv' = calls cv @ [(globalCompositeOperation cv, ClosePath)]"
  using assms
  by (cases "getMousePos ev c"; cases "socket c")
    (simp_all add: stopDrawing_def Let_def emit_def saveHistory_def issue_def)

section \<open>The local history manager: lemmas\<close>

lemma saveHistory_mounted:
  "canvas c = Some cv \<Longrightarrow>
   saveHistory h i c =
     c\<lparr>history := slice0 h (i + 1) @ [toDataURL cv],
       historyStep := int (length (slice0 h (i + 1)))\<rparr>"
  by (simp add: saveHistory_def Let_def)

lemma saveHistory_inv: "history_inv c \<Longrightarrow> history_inv (saveHistory h i c)"
  by (cases "canvas c") (simp_all add: saveHistory_def Let_def history_inv_def)

lemma restoreHistory_frame:
  "history (restoreHistory c) = history c"
  "historyStep (restoreHistory c) = historyStep c"
  "socket (restoreHistory c) = socket c"
  by (cases "canvas c"; simp add: restoreHistory_def)+

lemma restoreHistory_canvas: "canvas c \<noteq> None \<Longrightarrow> canvas (restoreHistory c) \<noteq> None"
  by (cases "canvas c") (simp_all add: restoreHistory_def)

lemma restore_effect_frame:
  "history (restore_effect c) = history c"
  "historyStep (restore_effect c) = historyStep c"
  "socket (restore_effect c) = socket c"
  by (simp_all add: restore_effect_def restoreHistory_frame)

lemma restore_effect_canvas: "canvas c \<noteq> None \<Longrightarrow> canvas (restore_effect c) \<noteq> None"
  using restoreHistory_canvas [of c] by (simp add: restore_effect_def)

lemma undo_frame:
  "history (undo c) = history c"
  "historyStep (undo c) = (if historyStep c > 0 then historyStep c - 1 else historyStep c)"
  "socket (undo c) = socket c"
  by (simp_all add: undo_def handleUndo_def Let_def restore_effect_frame)

lemma undo_canvas: "canvas c \<noteq> None \<Longrightarrow> canvas (undo c) \<noteq> None"
  using restore_effect_canvas [of "c\<lparr>historyStep := historyStep c - 1\<rparr>"]
  by (simp add: undo_def handleUndo_def Let_def)

lemma redo_frame:
  "history (redo c) = history c"
  "historyStep (redo c) =
     (if historyStep c < int (length (history c)) - 1 then historyStep c + 1 else historyStep c)"
  "socket (redo c) = socket c"
  by (simp_all add: redo_def handleRedo_def Let_def restore_effect_frame)

lemma redo_mounted:
  assumes "canvas c = Some cv" and "history_inv c"
    and "historyStep c < int (length (history c)) - 1"
  shows "redo c = c\<lparr>historyStep := historyStep c + 1,
                    canvas := Some (cv\<lparr>calls := calls cv @
                      [(globalCompositeOperation cv, ClearRect 0 0 (width cv) (height cv)),
                       (globalCompositeOperation cv,
                        DrawImage (history c ! nat (historyStep c + 1)))]\<rparr>)\<rparr>"
proof -
  have "history c \<noteq> []" "0 \<le> historyStep c"
    using assms(2,3) by (auto simp: history_inv_def split: if_splits)
  then show ?thesis
    using assms(1,3)
    by (simp add: redo_def handleRedo_def restore_effect_def restoreHistory_def issue_def)
qed

lemma undo_mounted:
  assumes "canvas c = Some cv" and "history_inv c" and "0 < historyStep c"
  shows "undo c = c\<lparr>historyStep := historyStep c - 1,
                    canvas := Some (cv\<lparr>calls := calls cv @
                      [(globalCompositeOperation cv, ClearRect 0 0 (width cv) (height cv)),
                       (globalCompositeOperation cv,
                        DrawImage (history c ! nat (historyStep c - 1)))]\<rparr>)\<rparr>"
proof -
  have "history c \<noteq> []" "historyStep c < int (length (history c))"
    using assms(2,3) by (auto simp: history_inv_def split: if_splits)
  then show ?thesis
    using assms(1,3)
    by (simp add: undo_def handleUndo_def restore_effect_def restoreHistory_def issue_def)
qed

lemma redo_at_tip: "historyStep c = int (length (history c)) - 1 \<Longrightarrow> redo c = c"
  by (simp add: redo_def handleRedo_def)

lemma undo_at_zero: "historyStep c \<le> 0 \<Longrightarrow> undo c = c"
  by (simp add: undo_def handleUndo_def)

text \<open>
  The push of a gesture handler, which calls \<open>saveHistory\<close> with the current history and
  cursor: it keeps the snapshots up to the cursor and appends.
\<close>

lemma local_push_truncates:
  assumes "canvas c = Some cv" and "- 1 \<le> historyStep c"
  shows "history (push c) = take (nat (historyStep c + 1)) (history c) @ [toDataURL cv]
    \<and> historyStep (push c) = int (length (history (push c))) - 1
    \<and> redo (push (undo c)) = push (undo c)"
proof -
  have one: "history (push c) = take (nat (historyStep c + 1)) (history c) @ [toDataURL cv]"
    using assms by (simp add: push_def saveHistory_mounted slice0_def)
  have two: "historyStep (push c) = int (length (history (push c))) - 1"
    using assms(1) by (simp add: push_def saveHistory_mounted)
  obtain cv' where u: "canvas (undo c) = Some cv'"
    using undo_canvas [of c] assms(1) by auto
  have "historyStep (push (undo c)) = int (length (history (push (undo c)))) - 1"
    using u by (simp add: push_def saveHistory_mounted)
  then have three: "redo (push (undo c)) = push (undo c)"
    by (rule redo_at_tip)
  show ?thesis using one two three by simp
qed

lemma local_push_truncates_example:
  "canvas (client_mounted\<lparr>history := [ [], [(''source-over'', Stroke)]], historyStep := 1\<rparr>)
     = Some canvas_mounted
   \<and> (- 1::int) \<le> 1
   \<and> history (push (client_mounted\<lparr>history := [ [], [(''source-over'', Stroke)]],
        historyStep := 1\<rparr>)) = [ [], [(''source-over'', Stroke)], []]
   \<and> historyStep (push (client_mounted\<lparr>history := [ [], [(''source-over'', Stroke)]],
        historyStep := 1\<rparr>)) = 2
   \<and> history (push (undo (client_mounted\<lparr>history := [ [], [(''source-over'', Stroke)]],
        historyStep := 1\<rparr>)))
     = [ [], [(''source-over'', ClearRect 0 0 800 600), (''source-over'', DrawImage [])]]
   \<and> redo (push (undo (client_mounted\<lparr>history := [ [], [(''source-over'', Stroke)]],
        historyStep := 1\<rparr>)))
     = push (undo (client_mounted\<lparr>history := [ [], [(''source-over'', Stroke)]],
        historyStep := 1\<rparr>))"
proof -
  let ?c = "client_mounted\<lparr>history := [ [], [(''source-over'', Stroke)]], historyStep := 1\<rparr>"
  have a: "canvas ?c = Some canvas_mounted"
    by (simp add: client_mounted_def)
  have u: "history (push (undo ?c))
      = [ [], [(''source-over'', ClearRect 0 0 800 600), (''source-over'', DrawImage [])]]"
    by (simp add: push_def saveHistory_def undo_def handleUndo_def restore_effect_def
        restoreHistory_def issue_def toDataURL_def slice0_def Let_def
        client_mounted_def canvas_mounted_def)
  show ?thesis
    using local_push_truncates [of ?c canvas_mounted] a u
    by (simp add: canvas_mounted_def toDataURL_def)
qed

text \<open>
  A replay all of whose actions are applied without an exception: the surface is cleared,
  receives the calls of every action in order, the flag is reset and the history is
  pushed once, from the history the handler's closure holds.
\<close>

lemma replay_without_exception:
  assumes "canvas c = Some cv"
    and "\<forall>a\<in>set actions. a \<noteq> JUndefined \<and> a \<noteq> JNull
           \<and> (\<forall>k\<in>set (type_calls (width cv) (height cv) (eraserWidth c) a). \<not> raises k)"
  shows "\<exists>cv'. on_initial_drawing_history raises h i actions c =
           Returned (c\<lparr>canvas := Some cv',
                       history := slice0 h (i + 1) @ [toDataURL cv'],
                       historyStep := int (length (slice0 h (i + 1) @ [toDataURL cv'])) - 1,
                       isApplyingRemoteAction := False\<rparr>)
      \<and> globalCompositeOperation cv' = globalCompositeOperation cv
      \<and> calls cv' = calls cv
          @ (globalCompositeOperation cv, ClearRect 0 0 (width cv) (height cv))
          # concat (map (\<lambda>a.
              map (Pair (if is_eraser a then ''destination-out'' else globalCompositeOperation cv))
                (type_calls (width cv) (height cv) (eraserWidth c) a)) actions)"
proof -
  let ?cv1 = "issue (ClearRect 0 0 (width cv) (height cv)) cv"
  let ?c1 = "c\<lparr>isApplyingRemoteAction := True, canvas := Some ?cv1\<rparr>"
  have c1: "canvas ?c1 = Some ?cv1" by simp
  have acts: "\<forall>a\<in>set actions. a \<noteq> JUndefined \<and> a \<noteq> JNull
      \<and> (\<forall>k\<in>set (type_calls (width ?cv1) (height ?cv1) (eraserWidth ?c1) a). \<not> raises k)"
    using assms(2) by (simp add: issue_simps)
  obtain cv' where run: "forEach_apply raises actions ?c1 = Returned (?c1\<lparr>canvas := Some cv'\<rparr>)"
    and mode: "globalCompositeOperation cv' = globalCompositeOperation ?cv1"
    and trace: "calls cv' = calls ?cv1 @ concat (map (\<lambda>a.
            map (Pair (if is_eraser a then ''destination-out''
                       else globalCompositeOperation ?cv1))
              (type_calls (width ?cv1) (height ?cv1) (eraserWidth ?c1) a)) actions)"
    using forEach_apply_ok [OF c1 acts] by blast
  have "on_initial_drawing_history raises h i actions c =
           Returned (c\<lparr>canvas := Some cv',
                       history := slice0 h (i + 1) @ [toDataURL cv'],
                       historyStep := int (length (slice0 h (i + 1) @ [toDataURL cv'])) - 1,
                       isApplyingRemoteAction := False\<rparr>)"
    using assms(1) run by (simp add: on_initial_drawing_history_def Let_def saveHistory_def)
  moreover have "calls cv' = calls cv
          @ (globalCompositeOperation cv, ClearRect 0 0 (width cv) (height cv))
          # concat (map (\<lambda>a.
              map (Pair (if is_eraser a then ''destination-out'' else globalCompositeOperation cv))
                (type_calls (width cv) (height cv) (eraserWidth c) a)) actions)"
    using trace unfolding issue_simps by simp
  ultimately show ?thesis
    using mode by (auto simp: issue_simps)
qed

lemma replay_without_exception_example:
  "canvas client_mounted = Some canvas_mounted
   \<and> type_calls 800 600 10 (JObj [(''type'', JStr ''start''), (''x'', JNum 10), (''y'', JNum 10)])
       = [BeginPath, MoveTo (JNum 10) (JNum 10)]
   \<and> type_calls 800 600 10 (JObj [(''type'', JStr ''draw''), (''x'', JNum 20), (''y'', JNum 20)])
       = [LineTo (JNum 20) (JNum 20), Stroke]
   \<and> type_calls 800 600 10 (JObj [(''type'', JStr ''stop'')]) = [ClosePath]
   \<and> \<not> html_canvas_raises BeginPath
   \<and> \<not> html_canvas_raises (MoveTo (JNum 10) (JNum 10))
   \<and> \<not> html_canvas_raises (LineTo (JNum 20) (JNum 20))
   \<and> \<not> html_canvas_raises Stroke
   \<and> \<not> html_canvas_raises ClosePath
   \<and> (\<exists>cv'. on_initial_drawing_history html_canvas_raises [] (- 1)
          [JObj [(''type'', JStr ''start''), (''x'', JNum 10), (''y'', JNum 10)],
           JObj [(''type'', JStr ''draw''), (''x'', JNum 20), (''y'', JNum 20)],
           JObj [(''type'', JStr ''stop'')]] client_mounted =
        Returned (client_mounted\<lparr>canvas := Some cv', history := [toDataURL cv'],
          historyStep := 0, isApplyingRemoteAction := False\<rparr>)
      \<and> calls cv' =
          [(''source-over'', ClearRect 0 0 800 600),
           (''source-over'', BeginPath),
           (''source-over'', MoveTo (JNum 10) (JNum 10)),
           (''source-over'', LineTo (JNum 20) (JNum 20)),
           (''source-over'', Stroke),
           (''source-over'', ClosePath)])"
proof -
  let ?as = "[JObj [(''type'', JStr ''start''), (''x'', JNum 10), (''y'', JNum 10)],
              JObj [(''type'', JStr ''draw''), (''x'', JNum 20), (''y'', JNum 20)],
              JObj [(''type'', JStr ''stop'')]]"
  have a: "canvas client_mounted = Some canvas_mounted"
    by (simp add: client_mounted_def)
  have sz: "width canvas_mounted = 800" "height canvas_mounted = 600"
    "eraserWidth client_mounted = 10" "globalCompositeOperation canvas_mounted = ''source-over''"
    "calls canvas_mounted = []"
    by (simp_all add: canvas_mounted_def client_mounted_def)
  have b: "\<forall>a\<in>set ?as. a \<noteq> JUndefined \<and> a \<noteq> JNull
      \<and> (\<forall>k\<in>set (type_calls 800 600 10 a). \<not> html_canvas_raises k)"
    by (simp add: type_calls_def)
  have b': "\<forall>a\<in>set ?as. a \<noteq> JUndefined \<and> a \<noteq> JNull
      \<and> (\<forall>k\<in>set (type_calls (width canvas_mounted) (height canvas_mounted)
            (eraserWidth client_mounted) a). \<not> html_canvas_raises k)"
    using b by (simp only: sz)
  show ?thesis
    using replay_without_exception [OF a b', of "[]" "- 1"] a b
    by (simp add: sz slice0_def type_calls_def is_eraser_def) blast
qed

lemma applying_remote_blocks_input:
  "isApplyingRemoteAction c \<Longrightarrow>
   startDrawing answer ev c = c \<and> draw ev c = c \<and> stopDrawing ev c = c"
  by (simp add: startDrawing_def draw_def stopDrawing_def)

section \<open>The relay server: claims\<close>

text \<open>
  C1. A session \<open>s\<close> connects to the freshly started server and submits the actions \<open>xs\<close>;
  then \<open>c\<close> connects. Everything the server delivers in that whole run is one
  \<open>initial-drawing-history\<close> message, to \<open>c\<close>, carrying the last \<open>min (length xs) 200\<close>
  of the actions in the order of submission; when nothing was submitted, nothing is
  delivered at all.
\<close>

theorem late_joiner_replay:
  "snd (run server_start (Connection s # map (DrawingAction s) xs @ [Connection c])) =
     (if xs = [] then []
      else [(c, initial_drawing_history (drop (length xs - min (length xs) 200) xs))])"
proof -
  let ?st1 = "server_start\<lparr>sockets := [s]\<rparr>"
  let ?st2 = "?st1\<lparr>drawingActionsHistory := foldl push_shift [] xs\<rparr>"
  have first: "step server_start (Connection s) = (?st1, [])"
    by (simp add: step_connection server_start_def)
  have middle: "run ?st1 (map (DrawingAction s) xs) = (?st2, [])"
    using run_alone [of ?st1 s xs] by (simp add: server_start_def)
  have hist: "foldl push_shift [] xs = drop (length xs - min (length xs) 200) xs"
    using foldl_push_shift_drop [of "[]" xs] by (simp add: MAX_HISTORY_LENGTH_def last_min)
  have nonempty: "drop (length xs - min (length xs) 200) xs = [] \<longleftrightarrow> xs = []"
    by (cases xs) (auto simp: min_def)
  have "snd (run server_start (Connection s # map (DrawingAction s) xs @ [Connection c]))
      = snd (step ?st2 (Connection c))"
    by (simp add: first run_append middle)
  also have "\<dots> = (if xs = [] then []
      else [(c, initial_drawing_history (drop (length xs - min (length xs) 200) xs))])"
    by (simp add: step_connection hist nonempty del: drop_eq_Nil drop_eq_Nil2)
  finally show ?thesis .
qed

theorem late_joiner_replay_witness:
  "snd (run server_start
     (Connection 1 # map (DrawingAction 1) [JNum 1, JNum 2, JNum 3] @ [Connection 2])) =
   [(2, initial_drawing_history [JNum 1, JNum 2, JNum 3])]"
  using late_joiner_replay [of 1 "[JNum 1, JNum 2, JNum 3]" 2] by simp

text \<open>
  C2. A submitted action, and the clear action made for a clear signal, is delivered once
  to each connected session other than the one it came from, and to nobody else: the
  sender is never among the recipients.
\<close>

theorem no_echo:
  "snd (step st (DrawingAction s d)) =
     map (\<lambda>t. (t, drawing_action d)) (filter (\<lambda>t. t \<noteq> s) (sockets st))
   \<and> snd (step st (ClearCanvas s)) =
     map (\<lambda>t. (t, drawing_action clearAction)) (filter (\<lambda>t. t \<noteq> s) (sockets st))
   \<and> fst ` set (snd (step st (DrawingAction s d))) = set (sockets st) - {s}
   \<and> fst ` set (snd (step st (ClearCanvas s))) = set (sockets st) - {s}
   \<and> s \<notin> fst ` set (snd (step st (DrawingAction s d)))
   \<and> s \<notin> fst ` set (snd (step st (ClearCanvas s)))"
  by (auto simp: step_drawing_action step_clear_canvas image_iff)

theorem no_echo_witness:
  "snd (step \<lparr>drawingActionsHistory = [], sockets = [1, 2, 3]\<rparr> (DrawingAction 2 (JNum 7))) =
     [(1, drawing_action (JNum 7)), (3, drawing_action (JNum 7))]
   \<and> snd (step \<lparr>drawingActionsHistory = [], sockets = [1, 2, 3]\<rparr> (ClearCanvas 2)) =
     [(1, drawing_action clearAction), (3, drawing_action clearAction)]"
  using no_echo [of "\<lparr>drawingActionsHistory = [], sockets = [1, 2, 3]\<rparr>" 2 "JNum 7"]
  by simp

text \<open>
  C3. After any events since start-up the history log holds at most 200 actions, and they
  are the latest of the actions logged, in arrival order. One submission or clear signal
  keeps the bound, appends at the end, and drops the oldest entry exactly when the log
  was full.
\<close>

theorem history_log_invariant:
  "length (drawingActionsHistory (fst (run server_start es))) \<le> 200
   \<and> drawingActionsHistory (fst (run server_start es)) =
       drop (length (logged es) - 200) (logged es)
   \<and> (length (drawingActionsHistory st) \<le> 200 \<longrightarrow>
        length (drawingActionsHistory (fst (step st (DrawingAction s d)))) \<le> 200
      \<and> drawingActionsHistory (fst (step st (DrawingAction s d))) =
          (if length (drawingActionsHistory st) = 200
           then tl (drawingActionsHistory st) @ [d]
           else drawingActionsHistory st @ [d])
      \<and> length (drawingActionsHistory (fst (step st (ClearCanvas s)))) \<le> 200
      \<and> drawingActionsHistory (fst (step st (ClearCanvas s))) =
          (if length (drawingActionsHistory st) = 200
           then tl (drawingActionsHistory st) @ [clearAction]
           else drawingActionsHistory st @ [clearAction]))"
proof -
  have reach: "drawingActionsHistory (fst (run server_start es)) =
      drop (length (logged es) - 200) (logged es)"
    using foldl_push_shift_drop [of "[]" "logged es"]
    by (simp add: run_history server_start_def MAX_HISTORY_LENGTH_def)
  have one: "length h \<le> 200 \<Longrightarrow>
      length (push_shift h a) \<le> 200
      \<and> push_shift h a = (if length h = 200 then tl h @ [a] else h @ [a])" for h a
    by (cases h) (auto simp: push_shift_def Let_def MAX_HISTORY_LENGTH_def)
  show ?thesis
    using one [of "drawingActionsHistory st" d] one [of "drawingActionsHistory st" clearAction]
    by (simp add: reach step_drawing_action step_clear_canvas)
qed

theorem history_log_invariant_witness:
  "length (replicate 200 JNull) \<le> 200
   \<and> drawingActionsHistory
       (fst (step \<lparr>drawingActionsHistory = replicate 200 JNull, sockets = [1]\<rparr>
          (DrawingAction 1 (JNum 7)))) = tl (replicate 200 JNull) @ [JNum 7]
   \<and> drawingActionsHistory
       (fst (step \<lparr>drawingActionsHistory = replicate 200 JNull, sockets = [1]\<rparr>
          (ClearCanvas 1))) = tl (replicate 200 JNull) @ [clearAction]"
  using history_log_invariant
    [of "[]" "\<lparr>drawingActionsHistory = replicate 200 JNull, sockets = [1]\<rparr>" 1 "JNum 7"]
  by simp

section \<open>The client: claims\<close>

text \<open>
  C4, as the code has it. For an action that is neither \<open>null\<close> nor \<open>undefined\<close>, applied
  on a mounted canvas that raises on none of the calls made: the action is not rejected
  and the interpreter returns; a missing (or falsy) colour gives way to the component's
  colour for the stroke and the fill style, a missing line width to the component's line
  width, or to its eraser width for an eraser action, a missing font to 16px Arial; and
  the calls made are those of the action's type, with \<open>x\<close>, \<open>y\<close>, \<open>width\<close>, \<open>height\<close> and
  \<open>radius\<close> handed over as they are read, \<open>undefined\<close> when missing, with no default.
\<close>

theorem applyDrawingAction_field_defaults:
  assumes "canvas c = Some cv" and "data \<noteq> JUndefined" and "data \<noteq> JNull"
    and "\<forall>k\<in>set (type_calls (width cv) (height cv) (eraserWidth c) data). \<not> raises k"
  shows "applyDrawingAction raises data c =
      Returned (c\<lparr>canvas := Some
        (cv\<lparr>strokeStyle := js_or (get data ''color'') (JStr (color c)),
            fillStyle := js_or (get data ''color'') (JStr (color c)),
            ctx_lineWidth := js_or (get data ''lineWidth'')
              (JNum (if is_eraser data then eraserWidth c else lineWidth c)),
            lineCap := JStr ''round'',
            font := js_or (get data ''font'') (JStr ''16px Arial''),
            calls := calls cv @
              map (Pair (if is_eraser data then ''destination-out''
                         else globalCompositeOperation cv))
                (type_calls (width cv) (height cv) (eraserWidth c) data)\<rparr>)\<rparr>)
    \<and> js_or JUndefined (JStr (color c)) = JStr (color c)
    \<and> js_or JUndefined (JNum (lineWidth c)) = JNum (lineWidth c)
    \<and> js_or JUndefined (JNum (eraserWidth c)) = JNum (eraserWidth c)"
proof -
  have "applyDrawingAction raises data c = Returned (c\<lparr>canvas := Some (applied data c cv)\<rparr>)"
    using assms by (rule applyDrawingAction_ok)
  then show ?thesis
    by (simp add: applied_def js_or_def)
qed

theorem applyDrawingAction_field_defaults_witness:
  "canvas client_mounted = Some canvas_mounted
   \<and> circle_without_x \<noteq> JUndefined \<and> circle_without_x \<noteq> JNull
   \<and> type_calls 800 600 10 circle_without_x =
       [BeginPath, Arc JUndefined (JNum 10) (Val (JNum 5)), Stroke]
   \<and> \<not> html_canvas_raises BeginPath
   \<and> \<not> html_canvas_raises (Arc JUndefined (JNum 10) (Val (JNum 5)))
   \<and> \<not> html_canvas_raises Stroke
   \<and> applyDrawingAction html_canvas_raises circle_without_x client_mounted =
       Returned (client_mounted\<lparr>canvas := Some (canvas_mounted\<lparr>calls :=
         [(''source-over'', BeginPath),
          (''source-over'', Arc JUndefined (JNum 10) (Val (JNum 5))),
          (''source-over'', Stroke)]\<rparr>)\<rparr>)"
proof -
  have a: "canvas client_mounted = Some canvas_mounted"
    by (simp add: client_mounted_def)
  have b: "circle_without_x \<noteq> JUndefined" "circle_without_x \<noteq> JNull"
    by (simp_all add: circle_without_x_def)
  have tc: "type_calls 800 600 10 circle_without_x =
      [BeginPath, Arc JUndefined (JNum 10) (Val (JNum 5)), Stroke]"
    by (simp add: type_calls_def circle_without_x_def)
  have d: "\<forall>k\<in>set (type_calls (width canvas_mounted) (height canvas_mounted)
      (eraserWidth client_mounted) circle_without_x). \<not> html_canvas_raises k"
    by (simp add: canvas_mounted_def client_mounted_def tc)
  have e: "is_eraser circle_without_x = False"
    by (simp add: is_eraser_def circle_without_x_def)
  have f: "get circle_without_x ''color'' = JUndefined"
    "get circle_without_x ''lineWidth'' = JUndefined"
    "get circle_without_x ''font'' = JUndefined"
    by (simp_all add: circle_without_x_def)
  show ?thesis
    using applyDrawingAction_field_defaults [OF a b d]
    by (simp add: a b tc e f js_or_def) (simp add: canvas_mounted_def client_mounted_def tc)
qed

text \<open>
  C4, as stated, fails: for a circle action without \<open>x\<close> the arc is made with \<open>undefined\<close> in
  the place of \<open>x\<close>, and not with the 0 the specification gives a missing numeric field.
\<close>

theorem missing_x_is_not_zero:
  "applyDrawingAction html_canvas_raises circle_without_x client_mounted =
     Returned (client_mounted\<lparr>canvas := Some (canvas_mounted\<lparr>calls :=
       [(''source-over'', BeginPath),
        (''source-over'', Arc JUndefined (JNum 10) (Val (JNum 5))),
        (''source-over'', Stroke)]\<rparr>)\<rparr>)
   \<and> applyDrawingAction html_canvas_raises circle_without_x client_mounted \<noteq>
     Returned (client_mounted\<lparr>canvas := Some (canvas_mounted\<lparr>calls :=
       [(''source-over'', BeginPath),
        (''source-over'', Arc (spec_numeric (get circle_without_x ''x''))
           (spec_numeric (get circle_without_x ''y''))
           (Val (spec_numeric (get circle_without_x ''radius'')))),
        (''source-over'', Stroke)]\<rparr>)\<rparr>)"
  by (simp add: applyDrawingAction_def circle_without_x_def client_mounted_def canvas_mounted_def
      is_eraser_def type_calls_def js_or_def issue_def Let_def spec_numeric_def)

text \<open>
  C5, at its failing input. The history holds three snapshots with the cursor at the last
  one when an action of a peer arrives. The push the socket handler makes after applying
  it does not cut the history at the cursor and append: it starts from the history its
  closure holds, the empty one, and leaves a single snapshot with the cursor at 0.
\<close>

theorem remote_push_replaces_history:
  "length (history after_two_strokes) = 3
   \<and> historyStep after_two_strokes = 2
   \<and> length (history (state_of
         (on_drawing_action_msg html_canvas_raises ''me'' [] (- 1) pen_draw after_two_strokes))) = 1
   \<and> historyStep (state_of
         (on_drawing_action_msg html_canvas_raises ''me'' [] (- 1) pen_draw after_two_strokes)) = 0"
  by (simp add: after_two_strokes_def on_drawing_action_msg_def applyDrawingAction_def
      pen_draw_def startDrawing_def stopDrawing_def push_def getMousePos_def emit_def
      saveHistory_def slice0_def state_of_def client_mounted_def canvas_mounted_def
      is_eraser_def type_calls_def js_or_def issue_def toDataURL_def Let_def)

text \<open>
  C6. The invariant of the snapshot history (cursor \<open>-1\<close> on the empty sequence, an index
  of the sequence otherwise) holds when the component is mounted and is kept by a push,
  with any closure values, by undo and by redo. Undo at cursor 0 and redo at the last
  index leave the whole state as it is, the surface included.
\<close>

theorem history_inv_preserved:
  "history_inv client_mounted
   \<and> (history_inv c \<longrightarrow>
        history_inv (push c) \<and> history_inv (saveHistory h i c)
        \<and> history_inv (undo c) \<and> history_inv (redo c))
   \<and> (historyStep c = 0 \<longrightarrow> undo c = c)
   \<and> (historyStep c = int (length (history c)) - 1 \<longrightarrow> redo c = c)"
proof -
  have "history_inv client_mounted"
    by (simp add: history_inv_def client_mounted_def)
  moreover have "history_inv (undo c)" if "history_inv c"
    using that by (auto simp: history_inv_def undo_frame split: if_splits)
  moreover have "history_inv (redo c)" if "history_inv c"
    using that by (auto simp: history_inv_def redo_frame split: if_splits)
  ultimately show ?thesis
    by (simp add: push_def saveHistory_inv redo_at_tip undo_at_zero)
qed

theorem history_inv_preserved_witness:
  "history_inv (client_mounted\<lparr>history := [ [] ], historyStep := 0\<rparr>)
   \<and> history_inv (push (client_mounted\<lparr>history := [ [] ], historyStep := 0\<rparr>))
   \<and> undo (client_mounted\<lparr>history := [ [] ], historyStep := 0\<rparr>)
       = client_mounted\<lparr>history := [ [] ], historyStep := 0\<rparr>
   \<and> redo (client_mounted\<lparr>history := [ [] ], historyStep := 0\<rparr>)
       = client_mounted\<lparr>history := [ [] ], historyStep := 0\<rparr>"
proof -
  have "history_inv (client_mounted\<lparr>history := [ [] ], historyStep := 0\<rparr>)"
    by (simp add: history_inv_def)
  then show ?thesis
    using history_inv_preserved
      [of "client_mounted\<lparr>history := [ [] ], historyStep := 0\<rparr>" "[]" 0]
    by simp
qed

text \<open>
  C7, at its failing input. A replay whose first action is a circle with a negative
  radius, or \<open>null\<close>: the handler sets the flag, clears the surface and throws on that
  action. It ends there, with \<open>isApplyingRemoteAction\<close> still set, the action after it not
  applied, and the history not pushed.
\<close>

theorem replay_throws_midway:
  "on_initial_drawing_history html_canvas_raises [] (- 1) [bad_circle, pen_draw] client_mounted =
     Thrown SurfaceError
       (client_mounted\<lparr>isApplyingRemoteAction := True,
          canvas := Some (canvas_mounted\<lparr>calls :=
            [(''source-over'', ClearRect 0 0 800 600), (''source-over'', BeginPath)]\<rparr>)\<rparr>)
   \<and> on_initial_drawing_history html_canvas_raises [] (- 1) [JNull, pen_draw] client_mounted =
     Thrown TypeError
       (client_mounted\<lparr>isApplyingRemoteAction := True,
          canvas := Some (canvas_mounted\<lparr>calls :=
            [(''source-over'', ClearRect 0 0 800 600)]\<rparr>)\<rparr>)
   \<and> history client_mounted = [] \<and> historyStep client_mounted = - 1"
  by (simp add: on_initial_drawing_history_def applyDrawingAction_def bad_circle_def pen_draw_def
      client_mounted_def canvas_mounted_def is_eraser_def type_calls_def js_or_def issue_def
      Let_def)

text \<open>
  C8, at its failing input. The mouse goes down with the eraser selected, which leaves the
  context in the subtractive mode until the mouse goes up; a pen stroke of a peer that
  arrives meanwhile is applied by the interpreter, which leaves the mode alone for a pen
  action: its \<open>lineTo\<close> and \<open>stroke\<close> are made in \<open>destination-out\<close>.
\<close>

theorem remote_pen_during_local_eraser:
  "map_option calls (canvas (state_of
     (on_drawing_action_msg html_canvas_raises ''me'' [] (- 1) pen_draw erasing))) =
   Some [(''source-over'', BeginPath),
         (''source-over'', MoveTo (JNum 10) (JNum 10)),
         (''destination-out'', LineTo (JNum 50) (JNum 50)),
         (''destination-out'', Stroke)]"
  by (simp add: on_drawing_action_msg_def applyDrawingAction_def erasing_def pen_draw_def
      startDrawing_def getMousePos_def emit_def saveHistory_def state_of_def
      client_mounted_def canvas_mounted_def is_eraser_def type_calls_def js_or_def issue_def
      Let_def)

text \<open>
  C9. Undo and redo emit nothing on the socket. With the canvas mounted and the invariant
  holding, a redo below the last index moves the cursor up by one, clears the surface and
  draws the snapshot stored at the new cursor; an undo above index 0 does the same one
  step down.
\<close>

theorem undo_redo_local:
  "socket (undo c) = socket c \<and> socket (redo c) = socket c
   \<and> (canvas c = Some cv \<and> history_inv c \<and> historyStep c < int (length (history c)) - 1 \<longrightarrow>
        redo c = c\<lparr>historyStep := historyStep c + 1,
                    canvas := Some (cv\<lparr>calls := calls cv @
                      [(globalCompositeOperation cv, ClearRect 0 0 (width cv) (height cv)),
                       (globalCompositeOperation cv,
                        DrawImage (history c ! nat (historyStep c + 1)))]\<rparr>)\<rparr>)
   \<and> (canvas c = Some cv \<and> history_inv c \<and> 0 < historyStep c \<longrightarrow>
        undo c = c\<lparr>historyStep := historyStep c - 1,
                    canvas := Some (cv\<lparr>calls := calls cv @
                      [(globalCompositeOperation cv, ClearRect 0 0 (width cv) (height cv)),
                       (globalCompositeOperation cv,
                        DrawImage (history c ! nat (historyStep c - 1)))]\<rparr>)\<rparr>)"
  using redo_mounted [of c cv] undo_mounted [of c cv]
  by (simp add: undo_frame redo_frame)

theorem undo_redo_local_witness:
  "canvas (client_mounted\<lparr>history := [ [], [(''source-over'', Stroke)], [(''source-over'', Fill)]],
      historyStep := 1\<rparr>) = Some canvas_mounted
   \<and> history_inv (client_mounted\<lparr>history :=
        [ [], [(''source-over'', Stroke)], [(''source-over'', Fill)]], historyStep := 1\<rparr>)
   \<and> redo (client_mounted\<lparr>history := [ [], [(''source-over'', Stroke)], [(''source-over'', Fill)]],
        historyStep := 1\<rparr>)
     = client_mounted\<lparr>history := [ [], [(''source-over'', Stroke)], [(''source-over'', Fill)]],
         historyStep := 2,
         canvas := Some (canvas_mounted\<lparr>calls :=
           [(''source-over'', ClearRect 0 0 800 600),
            (''source-over'', DrawImage [(''source-over'', Fill)])]\<rparr>)\<rparr>
   \<and> undo (client_mounted\<lparr>history := [ [], [(''source-over'', Stroke)], [(''source-over'', Fill)]],
        historyStep := 1\<rparr>)
     = client_mounted\<lparr>history := [ [], [(''source-over'', Stroke)], [(''source-over'', Fill)]],
         historyStep := 0,
         canvas := Some (canvas_mounted\<lparr>calls :=
           [(''source-over'', ClearRect 0 0 800 600),
            (''source-over'', DrawImage [])]\<rparr>)\<rparr>
   \<and> socket (redo (client_mounted\<lparr>history :=
        [ [], [(''source-over'', Stroke)], [(''source-over'', Fill)]], historyStep := 1\<rparr>)) = Some []
   \<and> socket (undo (client_mounted\<lparr>history :=
        [ [], [(''source-over'', Stroke)], [(''source-over'', Fill)]], historyStep := 1\<rparr>)) = Some []"
proof -
  let ?c = "client_mounted\<lparr>history := [ [], [(''source-over'', Stroke)], [(''source-over'', Fill)]],
      historyStep := 1\<rparr>"
  have a: "canvas ?c = Some canvas_mounted" by (simp add: client_mounted_def)
  have b: "history_inv ?c" by (simp add: history_inv_def)
  show ?thesis
    using undo_redo_local [of ?c canvas_mounted] a b
    by (simp add: client_mounted_def canvas_mounted_def)
qed

text \<open>
  C10. With the text tool, when the prompt is cancelled or returns the empty string,
  \<open>startDrawing\<close> makes no call on the surface, emits nothing, leaves the history and its
  cursor alone and does not change \<open>isDrawing\<close>; when \<open>isDrawing\<close> was false, the mouse
  moves and the mouse-up that follow change nothing either.
\<close>

theorem text_prompt_empty_noop:
  assumes "tool c = ''text''" and "answer = None \<or> answer = Some ''''"
  shows "map_option calls (canvas (startDrawing answer ev c)) = map_option calls (canvas c)
    \<and> socket (startDrawing answer ev c) = socket c
    \<and> history (startDrawing answer ev c) = history c
    \<and> historyStep (startDrawing answer ev c) = historyStep c
    \<and> isDrawing (startDrawing answer ev c) = isDrawing c
    \<and> (\<not> isDrawing c \<longrightarrow>
         draw ev' (startDrawing answer ev c) = startDrawing answer ev c
       \<and> stopDrawing ev' (startDrawing answer ev c) = startDrawing answer ev c)"
proof -
  have start: "startDrawing answer ev c =
      (if isApplyingRemoteAction c then c
       else case canvas c of
         None \<Rightarrow> c\<lparr>startPos := getMousePos ev c, currentPos := getMousePos ev c\<rparr>
       | Some cv \<Rightarrow>
           c\<lparr>startPos := getMousePos ev c, currentPos := getMousePos ev c,
             canvas := Some (cv\<lparr>strokeStyle := JStr (color c), fillStyle := JStr (color c),
               ctx_lineWidth := JNum (lineWidth c)\<rparr>)\<rparr>)"
    using assms
    by (cases "getMousePos ev c")
      (auto simp: startDrawing_def Let_def split: option.splits)
  have frame: "map_option calls (canvas (startDrawing answer ev c)) = map_option calls (canvas c)"
    "socket (startDrawing answer ev c) = socket c"
    "history (startDrawing answer ev c) = history c"
    "historyStep (startDrawing answer ev c) = historyStep c"
    "isDrawing (startDrawing answer ev c) = isDrawing c"
    "tool (startDrawing answer ev c) = tool c"
    by (cases "canvas c"; simp add: start)+
  have "draw ev' (startDrawing answer ev c) = startDrawing answer ev c" if "\<not> isDrawing c"
    using that by (simp add: draw_def frame)
  moreover have "stopDrawing ev' (startDrawing answer ev c) = startDrawing answer ev c"
    if "\<not> isDrawing c"
    using that assms(1) by (simp add: stopDrawing_def frame)
  ultimately show ?thesis using frame by simp
qed

theorem text_prompt_empty_noop_witness:
  "tool (client_mounted\<lparr>tool := ''text''\<rparr>) = ''text''
   \<and> map_option calls (canvas (startDrawing (Some '''') \<lparr>clientX = 3, clientY = 4\<rparr>
        (client_mounted\<lparr>tool := ''text''\<rparr>))) = Some []
   \<and> socket (startDrawing (Some '''') \<lparr>clientX = 3, clientY = 4\<rparr>
        (client_mounted\<lparr>tool := ''text''\<rparr>)) = Some []
   \<and> history (startDrawing (Some '''') \<lparr>clientX = 3, clientY = 4\<rparr>
        (client_mounted\<lparr>tool := ''text''\<rparr>)) = []
   \<and> isDrawing (startDrawing (Some '''') \<lparr>clientX = 3, clientY = 4\<rparr>
        (client_mounted\<lparr>tool := ''text''\<rparr>)) = False
   \<and> stopDrawing \<lparr>clientX = 3, clientY = 4\<rparr>
        (startDrawing (Some '''') \<lparr>clientX = 3, clientY = 4\<rparr>
          (client_mounted\<lparr>tool := ''text''\<rparr>))
     = startDrawing (Some '''') \<lparr>clientX = 3, clientY = 4\<rparr> (client_mounted\<lparr>tool := ''text''\<rparr>)"
  using text_prompt_empty_noop [of "client_mounted\<lparr>tool := ''text''\<rparr>" "Some ''''"
      "\<lparr>clientX = 3, clientY = 4\<rparr>" "\<lparr>clientX = 3, clientY = 4\<rparr>"]
  by (simp add: client_mounted_def canvas_mounted_def)

end
